theory Spec2Isabelle
  imports Main "HOL-Library.AList"
begin

section \<open>Python values used by the address book\<close>

text \<open>
  A Python \<open>str\<close> is a sequence of code points. It is modelled by a HOL \<open>string\<close> whose
  characters stand for the code points U+0000 .. U+00FF, one character per code point, so
  that \<open>length\<close> is Python's \<open>len\<close>.

  Every exception the program raises is a \<open>ValueError\<close> with a message;
  \<open>OverflowError\<close> is what \<open>datetime + timedelta\<close> raises beyond 31.12.9999.
\<close>

datatype exn = ValueError string | OverflowError string

text \<open>\<open>str(e)\<close> of an exception built from one message.\<close>

fun str_exn :: "exn \<Rightarrow> string" where
  "str_exn (ValueError m) = m"
| "str_exn (OverflowError m) = m"

subsection \<open>Characters and numbers\<close>

text \<open>The ASCII digits: what \<open>\d\<close> and \<open>[0-9]\<close> match among the code points below 256.\<close>

definition ascii_digit :: "char \<Rightarrow> bool" where
  "ascii_digit c \<longleftrightarrow> c \<in> set ''0123456789''"

text \<open>
  \<open>str.isdigit\<close>: true of a non-empty string all of whose characters have the Unicode
  property Numeric_Type = Digit or Decimal. Below U+0100 these are the ASCII digits and the
  superscripts U+00B2, U+00B3 and U+00B9.
\<close>

definition isdigit_char :: "char \<Rightarrow> bool" where
  "isdigit_char c \<longleftrightarrow> ascii_digit c \<or> c = CHR 0xB2 \<or> c = CHR 0xB3 \<or> c = CHR 0xB9"

definition isdigit :: "string \<Rightarrow> bool" where
  "isdigit s \<longleftrightarrow> s \<noteq> [] \<and> list_all isdigit_char s"

text \<open>\<open>int(c)\<close> for one ASCII digit, and \<open>int(s)\<close> for a string of them.\<close>

definition digit_val :: "char \<Rightarrow> nat" where
  "digit_val c = of_char c - 48"

definition int_of_digits :: "string \<Rightarrow> nat" where
  "int_of_digits s = foldl (\<lambda>n c. 10 * n + digit_val c) 0 s"

text \<open>\<open>str(n)\<close> for a natural number; \<open>digit_char\<close> is only applied below 10.\<close>

definition digit_char :: "nat \<Rightarrow> char" where
  "digit_char n = ''0123456789'' ! n"

fun str_nat :: "nat \<Rightarrow> string" where
  "str_nat n = (if n < 10 then [digit_char n] else str_nat (n div 10) @ [digit_char (n mod 10)])"

declare str_nat.simps [simp del]

text \<open>\<open>sep.join(xs)\<close>.\<close>

fun join :: "string \<Rightarrow> string list \<Rightarrow> string" where
  "join sep [] = []"
| "join sep [x] = x"
| "join sep (x # y # ys) = x @ sep @ join sep (y # ys)"

text \<open>
  \<open>repr(s)\<close> of a string, as \<open>%r\<close> formats it: quoted with \<open>'\<close> unless the string holds a
  \<open>'\<close> and no \<open>"\<close>; the quote and the backslash escaped, tab, newline and carriage return
  written \<open>\t\<close>, \<open>\n\<close>, \<open>\r\<close>, and every other non-printable code point below U+0100 as
  \<open>\xhh\<close>.
\<close>

definition hex_char :: "nat \<Rightarrow> char" where
  "hex_char n = ''0123456789abcdef'' ! n"

definition printable :: "char \<Rightarrow> bool" where
  "printable c \<longleftrightarrow>
     (let n = (of_char c :: nat)
      in \<not> (n < 32 \<or> (127 \<le> n \<and> n \<le> 160) \<or> n = 173))"

definition repr_char :: "char \<Rightarrow> char \<Rightarrow> string" where
  "repr_char quote c =
     (if c = quote \<or> c = CHR 0x5C then [CHR 0x5C, c]
      else if c = CHR 0x09 then [CHR 0x5C, CHR ''t'']
      else if c = CHR 0x0A then [CHR 0x5C, CHR ''n'']
      else if c = CHR 0x0D then [CHR 0x5C, CHR ''r'']
      else if printable c then [c]
      else [CHR 0x5C, CHR ''x'', hex_char (of_char c div 16), hex_char (of_char c mod 16)])"

definition repr :: "string \<Rightarrow> string" where
  "repr s =
     (let quote = (if CHR 0x27 \<in> set s \<and> CHR 0x22 \<notin> set s then CHR 0x22 else CHR 0x27)
      in [quote] @ concat (map (repr_char quote) s) @ [quote])"

section \<open>The calendar of \<open>datetime\<close>\<close>

text \<open>
  A naive \<open>datetime\<close>: the proleptic Gregorian date and the time of day, kept as the
  microseconds since midnight (hour, minute, second and microsecond together). A date-only
  value, such as \<open>strptime\<close> returns for the format \<open>%d.%m.%Y\<close>, has \<open>tod = 0\<close>.
\<close>

record datetime =
  year :: nat
  month :: nat
  day :: nat
  tod :: nat

definition is_leap :: "nat \<Rightarrow> bool" where
  "is_leap y \<longleftrightarrow> y mod 4 = 0 \<and> (y mod 100 \<noteq> 0 \<or> y mod 400 = 0)"

definition days_in_month :: "nat \<Rightarrow> nat \<Rightarrow> nat" where
  "days_in_month y m =
     (if m = 2 then (if is_leap y then 29 else 28)
      else if m = 4 \<or> m = 6 \<or> m = 9 \<or> m = 11 then 30
      else 31)"

definition days_before_year :: "nat \<Rightarrow> nat" where
  "days_before_year y = (let p = y - 1 in p * 365 + p div 4 + p div 400 - p div 100)"

definition days_before_month :: "nat \<Rightarrow> nat \<Rightarrow> nat" where
  "days_before_month y m = sum_list (map (days_in_month y) [1..<m])"

text \<open>\<open>toordinal\<close>: 01.01.0001 is day 1.\<close>

definition toordinal :: "datetime \<Rightarrow> nat" where
  "toordinal d = days_before_year (year d) + days_before_month (year d) (month d) + day d"

text \<open>\<open>weekday\<close>: Monday is 0, Saturday 5, Sunday 6.\<close>

definition weekday :: "datetime \<Rightarrow> nat" where
  "weekday d = (toordinal d + 6) mod 7"

definition valid_date :: "nat \<Rightarrow> nat \<Rightarrow> nat \<Rightarrow> bool" where
  "valid_date y m d \<longleftrightarrow>
     1 \<le> y \<and> y \<le> 9999 \<and> 1 \<le> m \<and> m \<le> 12 \<and> 1 \<le> d \<and> d \<le> days_in_month y m"

definition valid_datetime :: "datetime \<Rightarrow> bool" where
  "valid_datetime d \<longleftrightarrow> valid_date (year d) (month d) (day d) \<and> tod d < 86400000000"

text \<open>
  The constructor's checks, in its order: year, month, day. \<open>replace(year=y)\<close> builds a new
  value from the old fields through the same checks.
\<close>

definition new_datetime :: "nat \<Rightarrow> nat \<Rightarrow> nat \<Rightarrow> nat \<Rightarrow> exn + datetime" where
  "new_datetime y m d t =
     (if \<not> (1 \<le> y \<and> y \<le> 9999) then Inl (ValueError (''year '' @ str_nat y @ '' is out of range''))
      else if \<not> (1 \<le> m \<and> m \<le> 12) then Inl (ValueError ''month must be in 1..12'')
      else if \<not> (1 \<le> d \<and> d \<le> days_in_month y m) then Inl (ValueError ''day is out of range for month'')
      else Inr \<lparr>year = y, month = m, day = d, tod = t\<rparr>)"

definition replace_year :: "datetime \<Rightarrow> nat \<Rightarrow> exn + datetime" where
  "replace_year d y = new_datetime y (month d) (day d) (tod d)"

text \<open>\<open>a < b\<close> compares the fields in order.\<close>

definition dt_less :: "datetime \<Rightarrow> datetime \<Rightarrow> bool" where
  "dt_less a b \<longleftrightarrow>
     year a < year b \<or> (year a = year b \<and>
       (month a < month b \<or> (month a = month b \<and>
         (day a < day b \<or> (day a = day b \<and> tod a < tod b)))))"

text \<open>\<open>(a - b).days\<close>: the difference in whole days, rounded down.\<close>

definition sub_days :: "datetime \<Rightarrow> datetime \<Rightarrow> int" where
  "sub_days a b =
     (int (toordinal a) * 86400000000 + int (tod a)
        - (int (toordinal b) * 86400000000 + int (tod b))) div 86400000000"

text \<open>
  \<open>d + timedelta(days=n)\<close>, a day at a time: within the month, into the next month, into
  the next year; \<open>OverflowError\<close> after 31.12.9999.
\<close>

definition next_day :: "datetime \<Rightarrow> exn + datetime" where
  "next_day d =
     (if day d < days_in_month (year d) (month d) then Inr (d\<lparr>day := day d + 1\<rparr>)
      else if month d < 12 then Inr (d\<lparr>month := month d + 1, day := 1\<rparr>)
      else if year d < 9999 then Inr (d\<lparr>year := year d + 1, month := 1, day := 1\<rparr>)
      else Inl (OverflowError ''date value out of range''))"

fun add_days :: "datetime \<Rightarrow> nat \<Rightarrow> exn + datetime" where
  "add_days d 0 = Inr d"
| "add_days d (Suc n) = (case next_day d of Inl e \<Rightarrow> Inl e | Inr d' \<Rightarrow> add_days d' n)"

text \<open>
  \<open>strftime("%d.%m.%Y")\<close>: day and month padded to two digits; the year as the C library
  prints it, without padding.
\<close>

definition pad2 :: "nat \<Rightarrow> string" where
  "pad2 n = (if n < 10 then ''0'' @ str_nat n else str_nat n)"

definition strftime :: "datetime \<Rightarrow> string" where
  "strftime d = pad2 (day d) @ ''.'' @ pad2 (month d) @ ''.'' @ str_nat (year d)"

subsection \<open>\<open>strptime(s, "%d.%m.%Y")\<close>\<close>

text \<open>
  The format compiles to the regular expression
  \<^verbatim>\<open>(?P<d>3[0-1]|[1-2]\d|0[1-9]|[1-9]| [1-9])\.(?P<m>1[0-2]|0[1-9]|[1-9])\.(?P<Y>\d\d\d\d)\<close>
  matched at the start of the string. Each piece below lists the ways it can match a prefix,
  in the order of its alternatives, with the text matched and the rest of the string; the
  match found is the first one that lets the whole expression match.
\<close>

definition digit19 :: "char \<Rightarrow> bool" where
  "digit19 c \<longleftrightarrow> c \<in> set ''123456789''"

definition re_d :: "string \<Rightarrow> (string \<times> string) list" where
  "re_d s =
     (case s of c1 # c2 # r \<Rightarrow>
        (if c1 = CHR ''3'' \<and> (c2 = CHR ''0'' \<or> c2 = CHR ''1'') then [([c1, c2], r)] else []) @
        (if (c1 = CHR ''1'' \<or> c1 = CHR ''2'') \<and> ascii_digit c2 then [([c1, c2], r)] else []) @
        (if c1 = CHR ''0'' \<and> digit19 c2 then [([c1, c2], r)] else [])
      | _ \<Rightarrow> []) @
     (case s of c1 # r \<Rightarrow> (if digit19 c1 then [([c1], r)] else []) | _ \<Rightarrow> []) @
     (case s of c1 # c2 # r \<Rightarrow>
        (if c1 = CHR '' '' \<and> digit19 c2 then [([c1, c2], r)] else [])
      | _ \<Rightarrow> [])"

definition re_m :: "string \<Rightarrow> (string \<times> string) list" where
  "re_m s =
     (case s of c1 # c2 # r \<Rightarrow>
        (if c1 = CHR ''1'' \<and> (c2 = CHR ''0'' \<or> c2 = CHR ''1'' \<or> c2 = CHR ''2'')
         then [([c1, c2], r)] else []) @
        (if c1 = CHR ''0'' \<and> digit19 c2 then [([c1, c2], r)] else [])
      | _ \<Rightarrow> []) @
     (case s of c1 # r \<Rightarrow> (if digit19 c1 then [([c1], r)] else []) | _ \<Rightarrow> [])"

definition re_Y :: "string \<Rightarrow> (string \<times> string) list" where
  "re_Y s =
     (case s of c1 # c2 # c3 # c4 # r \<Rightarrow>
        (if ascii_digit c1 \<and> ascii_digit c2 \<and> ascii_digit c3 \<and> ascii_digit c4
         then [([c1, c2, c3, c4], r)] else [])
      | _ \<Rightarrow> [])"

definition re_dot :: "string \<Rightarrow> string list" where
  "re_dot s = (case s of c # r \<Rightarrow> (if c = CHR ''.'' then [r] else []) | _ \<Rightarrow> [])"

text \<open>All matches of the whole expression, in the order the matcher tries them.\<close>

definition re_matches :: "string \<Rightarrow> (string \<times> string \<times> string \<times> string) list" where
  "re_matches s =
     concat (map (\<lambda>(d, r1).
       concat (map (\<lambda>r2.
         concat (map (\<lambda>(m, r3).
           concat (map (\<lambda>r4.
             map (\<lambda>(y, r5). (d, m, y, r5)) (re_Y r4))
           (re_dot r3)))
         (re_m r2)))
       (re_dot r1)))
     (re_d s))"

text \<open>
  No match: ValueError. A match that leaves text: ValueError. Otherwise the groups are
  converted by \<open>int\<close>; a day written with a space is converted after the space is
  skipped. The date is then built, with the constructor's checks.
\<close>

definition int_group :: "string \<Rightarrow> nat" where
  "int_group g = int_of_digits (filter (\<lambda>c. c \<noteq> CHR '' '') g)"

definition strptime :: "string \<Rightarrow> exn + datetime" where
  "strptime s =
     (case re_matches s of
        [] \<Rightarrow> Inl (ValueError (''time data '' @ repr s @ '' does not match format ''
                                 @ repr ''%d.%m.%Y''))
      | (d, m, y, rest) # _ \<Rightarrow>
          if rest \<noteq> [] then Inl (ValueError (''unconverted data remains: '' @ rest))
          else new_datetime (int_group y) (int_group m) (int_group d) 0)"

section \<open>Fields, managers and records\<close>

text \<open>
  \<open>Phone\<close> and \<open>Birthday\<close> are \<open>Field\<close>s: a wrapper of the raw string, checked when the
  object is built. \<open>isinstance(value, str)\<close> holds of every \<open>string\<close>.
\<close>

datatype Phone = Phone (phone_value: string)

datatype Birthday = Birthday (birthday_value: string)

definition InvalidPhone :: exn where
  "InvalidPhone = ValueError ''Phone number must be a string of 10 digits''"

definition InvalidDate :: exn where
  "InvalidDate = ValueError ''Invalid date format. Use DD.MM.YYYY''"

definition PhoneNotFound :: "string \<Rightarrow> exn" where
  "PhoneNotFound old_phone = ValueError (''Phone '' @ old_phone @ '' not found'')"

definition Phone_init :: "string \<Rightarrow> exn + Phone" where
  "Phone_init v = (if \<not> (isdigit v \<and> length v = 10) then Inl InvalidPhone else Inr (Phone v))"

text \<open>Any \<open>ValueError\<close> of \<open>strptime\<close> is caught and replaced by the class's own.\<close>

definition Birthday_init :: "string \<Rightarrow> exn + Birthday" where
  "Birthday_init v =
     (case strptime v of
        Inr _ \<Rightarrow> Inr (Birthday v)
      | Inl (ValueError _) \<Rightarrow> Inl InvalidDate
      | Inl e \<Rightarrow> Inl e)"

text \<open>
  A method that mutates its object and may raise returns the outcome together with the
  object as it is left: the state reached before a raise is kept.
\<close>

subsection \<open>PhoneManager: the list \<open>phones\<close>\<close>

definition add_phone :: "Phone list \<Rightarrow> string \<Rightarrow> (exn + unit) \<times> Phone list" where
  "add_phone phones phone =
     (case Phone_init phone of
        Inl e \<Rightarrow> (Inl e, phones)
      | Inr new_phone \<Rightarrow> (Inr (), phones @ [new_phone]))"

definition remove_phone :: "Phone list \<Rightarrow> string \<Rightarrow> Phone list" where
  "remove_phone phones phone = filter (\<lambda>p. phone_value p \<noteq> phone) phones"

text \<open>
  The \<open>for\<close> ... \<open>else\<close> of \<open>edit_phone\<close>: the list after the assignment to the first
  phone whose value is \<open>old_phone\<close>, or \<open>None\<close> when the loop ends without \<open>break\<close>.
\<close>

fun edit_loop :: "Phone list \<Rightarrow> string \<Rightarrow> string \<Rightarrow> Phone list option" where
  "edit_loop [] old_phone new_phone = None"
| "edit_loop (p # ps) old_phone new_phone =
     (if phone_value p = old_phone then Some (Phone new_phone # ps)
      else map_option ((#) p) (edit_loop ps old_phone new_phone))"

definition edit_phone :: "Phone list \<Rightarrow> string \<Rightarrow> string \<Rightarrow> (exn + unit) \<times> Phone list" where
  "edit_phone phones old_phone new_phone =
     (case Phone_init new_phone of
        Inl e \<Rightarrow> (Inl e, phones)
      | Inr _ \<Rightarrow>
          (case edit_loop phones old_phone new_phone of
             Some phones' \<Rightarrow> (Inr (), phones')
           | None \<Rightarrow> (Inl (PhoneNotFound old_phone), phones)))"

definition find_phone :: "Phone list \<Rightarrow> string \<Rightarrow> Phone option" where
  "find_phone phones phone = find (\<lambda>p. phone_value p = phone) phones"

definition get_phones_str :: "Phone list \<Rightarrow> string" where
  "get_phones_str phones =
     (if phones \<noteq> [] then join '', '' (map phone_value phones) else ''No phones'')"

subsection \<open>BirthdayManager: the optional \<open>birthday\<close>\<close>

definition add_birthday :: "Birthday option \<Rightarrow> string \<Rightarrow> (exn + unit) \<times> Birthday option" where
  "add_birthday birthday b =
     (case Birthday_init b of
        Inl e \<Rightarrow> (Inl e, birthday)
      | Inr v \<Rightarrow> (Inr (), Some v))"

definition get_birthday_str :: "Birthday option \<Rightarrow> string" where
  "get_birthday_str birthday =
     (case birthday of Some b \<Rightarrow> '', birthday: '' @ birthday_value b | None \<Rightarrow> [])"

subsection \<open>Record\<close>

record Record =
  name :: string
  phones :: "Phone list"
  birthday :: "Birthday option"

definition Record_init :: "string \<Rightarrow> Record" where
  "Record_init n = \<lparr>name = n, phones = [], birthday = None\<rparr>"

definition str_Record :: "Record \<Rightarrow> string" where
  "str_Record r =
     ''Contact name: '' @ name r @ '', phones: '' @ get_phones_str (phones r)
       @ get_birthday_str (birthday r)"

section \<open>BirthdayCalculator\<close>

record upcoming_birthday =
  entry_name :: string
  congratulation_date :: string

text \<open>
  Lines 116 to 118: the birthday moved to the year of \<open>today\<close>, and to the next year when
  that is before \<open>today\<close>. Either \<open>replace\<close> may raise.
\<close>

definition bday_this_year :: "datetime \<Rightarrow> datetime \<Rightarrow> exn + datetime" where
  "bday_this_year today bday =
     (case replace_year bday (year today) of
        Inl e \<Rightarrow> Inl e
      | Inr b \<Rightarrow> if dt_less b today then replace_year b (year today + 1) else Inr b)"

text \<open>Lines 121 to 126: the move off the weekend.\<close>

definition congratulation :: "datetime \<Rightarrow> exn + datetime" where
  "congratulation b =
     (if weekday b = 5 then add_days b 2
      else if weekday b = 6 then add_days b 1
      else Inr b)"

text \<open>The loop over the records, with the list \<open>upcoming\<close> built so far.\<close>

fun upcoming_loop ::
  "datetime \<Rightarrow> Record list \<Rightarrow> upcoming_birthday list \<Rightarrow> exn + upcoming_birthday list" where
  "upcoming_loop today [] upcoming = Inr upcoming"
| "upcoming_loop today (r # rs) upcoming =
     (case birthday r of
        None \<Rightarrow> upcoming_loop today rs upcoming
      | Some b \<Rightarrow>
          (case strptime (birthday_value b) of
             Inl e \<Rightarrow> Inl e
           | Inr bday \<Rightarrow>
               (case bday_this_year today bday of
                  Inl e \<Rightarrow> Inl e
                | Inr bty \<Rightarrow>
                    let delta = sub_days bty today in
                    if 0 \<le> delta \<and> delta \<le> 7 then
                      (case congratulation bty of
                         Inl e \<Rightarrow> Inl e
                       | Inr cd \<Rightarrow>
                           upcoming_loop today rs
                             (upcoming @ [\<lparr>entry_name = name r,
                                           congratulation_date = strftime cd\<rparr>]))
                    else upcoming_loop today rs upcoming)))"

text \<open>\<open>now\<close> is what \<open>datetime.today()\<close> returns when no \<open>today\<close> is passed.\<close>

definition get_upcoming_birthdays ::
  "Record list \<Rightarrow> datetime option \<Rightarrow> datetime \<Rightarrow> exn + upcoming_birthday list" where
  "get_upcoming_birthdays records today now =
     upcoming_loop (case today of None \<Rightarrow> now | Some t \<Rightarrow> t) records []"

section \<open>AddressBook\<close>

text \<open>
  The dictionary \<open>data\<close>, in insertion order. A record found in the book and then mutated
  is the object stored under that key, so the mutation is an update of the entry in place.
\<close>

type_synonym AddressBook = "(string \<times> Record) list"

definition add_record :: "AddressBook \<Rightarrow> Record \<Rightarrow> AddressBook" where
  "add_record book r = AList.update (name r) r book"

definition delete :: "AddressBook \<Rightarrow> string \<Rightarrow> AddressBook" where
  "delete book n = AList.delete n book"

definition find_record :: "AddressBook \<Rightarrow> string \<Rightarrow> Record option" where
  "find_record book n = map_of book n"

definition get_all_records :: "AddressBook \<Rightarrow> Record list" where
  "get_all_records book = map snd book"

section \<open>Commands\<close>

datatype Command =
  AddContactCommand | ChangeContactCommand | ShowPhoneCommand | ShowAllCommand
  | AddBirthdayCommand | ShowBirthdayCommand | BirthdaysCommand

text \<open>
  The error a command raises when it checks \<open>len(args)\<close>: the command's name and what
  it requires.
\<close>

definition WrongArity :: "string \<Rightarrow> string \<Rightarrow> exn" where
  "WrongArity cmd requires =
     ValueError (''Command '' @ [CHR 0x27] @ cmd @ [CHR 0x27] @ '' requires '' @ requires)"

definition AddContact_execute ::
  "string list \<Rightarrow> AddressBook \<Rightarrow> (exn + string) \<times> AddressBook" where
  "AddContact_execute args book =
     (if length args \<noteq> 2 then (Inl (WrongArity ''add'' ''2 arguments: name and phone''), book)
      else
        let n = args ! 0; phone = args ! 1;
            (record, book1) =
              (case find_record book n of
                 None \<Rightarrow> (Record_init n, add_record book (Record_init n))
               | Some r \<Rightarrow> (r, book))
        in case add_phone (phones record) phone of
             (Inl e, _) \<Rightarrow> (Inl e, book1)
           | (Inr _, phones') \<Rightarrow>
               (Inr ''Contact added.'', AList.update n (record\<lparr>phones := phones'\<rparr>) book1))"

definition ChangeContact_execute ::
  "string list \<Rightarrow> AddressBook \<Rightarrow> (exn + string) \<times> AddressBook" where
  "ChangeContact_execute args book =
     (if length args \<noteq> 3 then (Inl (WrongArity ''change'' ''3 arguments: name, old_phone, new_phone''), book)
      else
        let n = args ! 0; old_phone = args ! 1; new_phone = args ! 2
        in case find_record book n of
             None \<Rightarrow> (Inr ''Contact not found.'', book)
           | Some record \<Rightarrow>
               (case edit_phone (phones record) old_phone new_phone of
                  (Inl e, _) \<Rightarrow> (Inl e, book)
                | (Inr _, phones') \<Rightarrow>
                    (Inr ''Phone number updated.'',
                     AList.update n (record\<lparr>phones := phones'\<rparr>) book)))"

definition ShowPhone_execute ::
  "string list \<Rightarrow> AddressBook \<Rightarrow> (exn + string) \<times> AddressBook" where
  "ShowPhone_execute args book =
     (if length args \<noteq> 1 then (Inl (WrongArity ''phone'' ''1 argument: name''), book)
      else
        case find_record book (args ! 0) of
          None \<Rightarrow> (Inr ''Contact not found.'', book)
        | Some record \<Rightarrow> (Inr (str_Record record), book))"

definition ShowAll_execute ::
  "string list \<Rightarrow> AddressBook \<Rightarrow> (exn + string) \<times> AddressBook" where
  "ShowAll_execute args book =
     (if book = [] then (Inr ''No contacts found.'', book)
      else (Inr (join [CHR 0x0A] (map (\<lambda>(k, record). str_Record record) book)), book))"

definition AddBirthday_execute ::
  "string list \<Rightarrow> AddressBook \<Rightarrow> (exn + string) \<times> AddressBook" where
  "AddBirthday_execute args book =
     (if length args \<noteq> 2 then (Inl (WrongArity ''add-birthday'' ''2 arguments: name and birthday''), book)
      else
        let n = args ! 0; b = args ! 1
        in case find_record book n of
             None \<Rightarrow> (Inr ''Contact not found.'', book)
           | Some record \<Rightarrow>
               (case add_birthday (birthday record) b of
                  (Inl e, _) \<Rightarrow> (Inl e, book)
                | (Inr _, birthday') \<Rightarrow>
                    (Inr ''Birthday added.'',
                     AList.update n (record\<lparr>birthday := birthday'\<rparr>) book)))"

definition ShowBirthday_execute ::
  "string list \<Rightarrow> AddressBook \<Rightarrow> (exn + string) \<times> AddressBook" where
  "ShowBirthday_execute args book =
     (if length args \<noteq> 1 then (Inl (WrongArity ''show-birthday'' ''1 argument: name''), book)
      else
        case find_record book (args ! 0) of
          None \<Rightarrow> (Inr ''Contact not found.'', book)
        | Some record \<Rightarrow>
            (case birthday record of
               None \<Rightarrow> (Inr ''Birthday not set.'', book)
             | Some b \<Rightarrow>
                 (Inr (name record @ [CHR 0x27] @ ''s birthday: '' @ birthday_value b), book)))"

definition Birthdays_execute ::
  "string list \<Rightarrow> AddressBook \<Rightarrow> datetime \<Rightarrow> (exn + string) \<times> AddressBook" where
  "Birthdays_execute args book now =
     (case get_upcoming_birthdays (get_all_records book) None now of
        Inl e \<Rightarrow> (Inl e, book)
      | Inr upcoming \<Rightarrow>
          if upcoming = [] then (Inr ''No upcoming birthdays in the next 7 days.'', book)
          else (Inr (join [CHR 0x0A]
                       (map (\<lambda>entry. entry_name entry @ '': '' @ congratulation_date entry)
                            upcoming)), book))"

text \<open>\<open>cmd.execute(args, book)\<close>, with the clock the command may read.\<close>

fun execute ::
  "Command \<Rightarrow> string list \<Rightarrow> AddressBook \<Rightarrow> datetime \<Rightarrow> (exn + string) \<times> AddressBook" where
  "execute AddContactCommand args book now = AddContact_execute args book"
| "execute ChangeContactCommand args book now = ChangeContact_execute args book"
| "execute ShowPhoneCommand args book now = ShowPhone_execute args book"
| "execute ShowAllCommand args book now = ShowAll_execute args book"
| "execute AddBirthdayCommand args book now = AddBirthday_execute args book"
| "execute ShowBirthdayCommand args book now = ShowBirthday_execute args book"
| "execute BirthdaysCommand args book now = Birthdays_execute args book now"

section \<open>The decorators and the command table\<close>

text \<open>
  \<open>input_error\<close> turns a \<open>ValueError\<close> into the text \<open>Error: \<close> and its message (no
  \<open>KeyError\<close> or \<open>IndexError\<close> is raised by a command); any other exception passes.
\<close>

definition input_error :: "(exn + string) \<times> AddressBook \<Rightarrow> (exn + string) \<times> AddressBook" where
  "input_error res =
     (case res of
        (Inl (ValueError m), book) \<Rightarrow> (Inr (''Error: '' @ str_exn (ValueError m)), book)
      | (Inl e, book) \<Rightarrow> (Inl e, book)
      | (Inr s, book) \<Rightarrow> (Inr s, book))"

text \<open>
  \<open>save_on_change\<close>: when the wrapped call returns, the book is saved; the storage holds
  the book last saved. An exception that passes leaves the storage as it was.
\<close>

definition save_on_change ::
  "(exn + string) \<times> AddressBook \<Rightarrow> AddressBook option
     \<Rightarrow> (exn + string) \<times> AddressBook \<times> AddressBook option" where
  "save_on_change res storage =
     (case res of
        (Inl e, book) \<Rightarrow> (Inl e, book, storage)
      | (Inr s, book) \<Rightarrow> (Inr s, book, Some book))"

definition command_map :: "string \<Rightarrow> Command option" where
  "command_map =
     [''add'' \<mapsto> AddContactCommand,
      ''change'' \<mapsto> ChangeContactCommand,
      ''phone'' \<mapsto> ShowPhoneCommand,
      ''all'' \<mapsto> ShowAllCommand,
      ''add-birthday'' \<mapsto> AddBirthdayCommand,
      ''show-birthday'' \<mapsto> ShowBirthdayCommand,
      ''birthdays'' \<mapsto> BirthdaysCommand]"

text \<open>Lines 290 to 292: \<open>save_on_change(storage)(input_error(cmd.execute))(args, book)\<close>.\<close>

definition decorated_cmd ::
  "Command \<Rightarrow> string list \<Rightarrow> AddressBook \<Rightarrow> datetime \<Rightarrow> AddressBook option
     \<Rightarrow> (exn + string) \<times> AddressBook \<times> AddressBook option" where
  "decorated_cmd cmd args book now storage =
     save_on_change (input_error (execute cmd args book now)) storage"

section \<open>Notions of the specification\<close>

text \<open>A phone as the specification words it: exactly 10 characters, all decimal digits.\<close>

definition ten_decimal_digits :: "string \<Rightarrow> bool" where
  "ten_decimal_digits raw \<longleftrightarrow> length raw = 10 \<and> list_all ascii_digit raw"

text \<open>The number of arguments the specification requires of each command.\<close>

definition arity :: "Command \<Rightarrow> nat" where
  "arity cmd =
     (case cmd of
        AddContactCommand \<Rightarrow> 2 | ChangeContactCommand \<Rightarrow> 3 | ShowPhoneCommand \<Rightarrow> 1
      | ShowAllCommand \<Rightarrow> 0 | AddBirthdayCommand \<Rightarrow> 2 | ShowBirthdayCommand \<Rightarrow> 1
      | BirthdaysCommand \<Rightarrow> 0)"

text \<open>A clock reading for the examples: 10.06.2024, 14:30.\<close>

definition example_now :: datetime where
  "example_now = \<lparr>year = 2024, month = 6, day = 10, tod = 52200000000\<rparr>"

(*SPECDEFS*)
section \<open>Evaluation rules\<close>

lemmas phone_eval = Phone_init_def isdigit_def isdigit_char_def ascii_digit_def InvalidPhone_def

lemmas exec_eval = AddContact_execute_def ChangeContact_execute_def ShowPhone_execute_def
  ShowAll_execute_def AddBirthday_execute_def ShowBirthday_execute_def
  find_record_def add_record_def Record_init_def add_phone_def WrongArity_def

lemmas wrap_eval = decorated_cmd_def input_error_def save_on_change_def

section \<open>Phones\<close>

lemma edit_loop_None: "edit_loop ps old new = None \<longleftrightarrow> old \<notin> phone_value ` set ps"
  by (induction ps) auto

lemma edit_loop_Some:
  "old \<in> phone_value ` set ps \<Longrightarrow>
   \<exists>i<length ps. phone_value (ps ! i) = old \<and> (\<forall>j<i. phone_value (ps ! j) \<noteq> old)
      \<and> edit_loop ps old new = Some (ps[i := Phone new])"
proof (induction ps)
  case Nil
  then show ?case by simp
next
  case (Cons p ps)
  show ?case
  proof (cases "phone_value p = old")
    case True
    then have "phone_value ((p # ps) ! 0) = old \<and> (\<forall>j<0. phone_value ((p # ps) ! j) \<noteq> old)
        \<and> edit_loop (p # ps) old new = Some ((p # ps)[0 := Phone new])"
      by simp
    then show ?thesis by blast
  next
    case False
    with Cons.prems have "old \<in> phone_value ` set ps" by auto
    from Cons.IH [OF this] obtain i where i: "i < length ps" "phone_value (ps ! i) = old"
      "\<forall>j<i. phone_value (ps ! j) \<noteq> old" "edit_loop ps old new = Some (ps[i := Phone new])"
      by blast
    have "\<forall>j<Suc i. phone_value ((p # ps) ! j) \<noteq> old"
      using False i(3) by (auto simp: nth_Cons split: nat.splits)
    with i False have "Suc i < length (p # ps) \<and> phone_value ((p # ps) ! Suc i) = old
        \<and> (\<forall>j<Suc i. phone_value ((p # ps) ! j) \<noteq> old)
        \<and> edit_loop (p # ps) old new = Some ((p # ps)[Suc i := Phone new])"
      by simp
    then show ?thesis by blast
  qed
qed

text \<open>
  C3: \<open>edit_phone\<close> with an invalid new phone raises InvalidPhone and leaves the phones as
  they are; with a valid new phone and no phone equal to the old one it raises PhoneNotFound
  and leaves the phones as they are; with a valid new phone and a match it assigns the new
  value to the first phone equal to the old one, every other position unchanged.
\<close>

theorem edit_phone_first_match:
  "(Phone_init new = Inl InvalidPhone \<longrightarrow> edit_phone ps old new = (Inl InvalidPhone, ps)) \<and>
   (Phone_init new = Inr (Phone new) \<and> old \<notin> phone_value ` set ps \<longrightarrow>
      edit_phone ps old new = (Inl (PhoneNotFound old), ps)) \<and>
   (Phone_init new = Inr (Phone new) \<and> old \<in> phone_value ` set ps \<longrightarrow>
      (\<exists>i<length ps. phone_value (ps ! i) = old \<and> (\<forall>j<i. phone_value (ps ! j) \<noteq> old)
         \<and> edit_phone ps old new = (Inr (), ps[i := Phone new])))"
proof (intro conjI impI)
  assume "Phone_init new = Inl InvalidPhone"
  then show "edit_phone ps old new = (Inl InvalidPhone, ps)"
    by (simp add: edit_phone_def)
next
  assume a: "Phone_init new = Inr (Phone new) \<and> old \<notin> phone_value ` set ps"
  then have "edit_loop ps old new = None" by (simp add: edit_loop_None)
  with a show "edit_phone ps old new = (Inl (PhoneNotFound old), ps)"
    by (simp add: edit_phone_def)
next
  assume a: "Phone_init new = Inr (Phone new) \<and> old \<in> phone_value ` set ps"
  then obtain i where i: "i < length ps" "phone_value (ps ! i) = old"
      "\<forall>j<i. phone_value (ps ! j) \<noteq> old" "edit_loop ps old new = Some (ps[i := Phone new])"
    using edit_loop_Some [of old ps new] by blast
  with a have "edit_phone ps old new = (Inr (), ps[i := Phone new])"
    by (simp add: edit_phone_def)
  with i show "\<exists>i<length ps. phone_value (ps ! i) = old \<and> (\<forall>j<i. phone_value (ps ! j) \<noteq> old)
         \<and> edit_phone ps old new = (Inr (), ps[i := Phone new])"
    by blast
qed

theorem edit_phone_first_match_witness:
  "Phone_init ''12'' = Inl InvalidPhone \<and>
   edit_phone [Phone ''0000000001''] ''0000000001'' ''12'' = (Inl InvalidPhone, [Phone ''0000000001'']) \<and>
   Phone_init ''0000000003'' = Inr (Phone ''0000000003'') \<and>
   ''0000000002'' \<notin> phone_value ` set [Phone ''0000000001''] \<and>
   edit_phone [Phone ''0000000001''] ''0000000002'' ''0000000003''
     = (Inl (PhoneNotFound ''0000000002''), [Phone ''0000000001'']) \<and>
   ''0000000001'' \<in> phone_value ` set [Phone ''0000000002'', Phone ''0000000001'', Phone ''0000000001''] \<and>
   edit_phone [Phone ''0000000002'', Phone ''0000000001'', Phone ''0000000001'']
      ''0000000001'' ''0000000003''
     = (Inr (), [Phone ''0000000002'', Phone ''0000000003'', Phone ''0000000001''])"
  using edit_phone_first_match [of "''12''" "[Phone ''0000000001'']" "''0000000001''"]
        edit_phone_first_match [of "''0000000003''" "[Phone ''0000000001'']" "''0000000002''"]
  by (simp add: phone_eval edit_phone_def PhoneNotFound_def)

text \<open>
  C5, as stated, fails: a string of ten superscript twos (U+00B2) satisfies \<open>str.isdigit\<close>
  and is accepted, though none of its characters is a decimal digit.
\<close>

theorem Phone_init_counterexample:
  "\<not> isl (Phone_init [CHR 0xB2, CHR 0xB2, CHR 0xB2, CHR 0xB2, CHR 0xB2,
                       CHR 0xB2, CHR 0xB2, CHR 0xB2, CHR 0xB2, CHR 0xB2]) \<and>
   \<not> ten_decimal_digits [CHR 0xB2, CHR 0xB2, CHR 0xB2, CHR 0xB2, CHR 0xB2,
                          CHR 0xB2, CHR 0xB2, CHR 0xB2, CHR 0xB2, CHR 0xB2]"
  by (simp add: phone_eval ten_decimal_digits_def)

text \<open>
  C5, amended: \<open>Phone\<close> construction succeeds exactly when the string has 10 characters,
  each one a digit in the sense of \<open>str.isdigit\<close> (a decimal digit or a superscript digit);
  every other string raises InvalidPhone; every string of exactly 10 decimal digits is
  accepted.
\<close>

theorem Phone_init_isdigit:
  "(\<not> isl (Phone_init raw) \<longleftrightarrow> length raw = 10 \<and> list_all isdigit_char raw) \<and>
   (length raw = 10 \<and> list_all isdigit_char raw \<longrightarrow> Phone_init raw = Inr (Phone raw)) \<and>
   (length raw \<noteq> 10 \<or> \<not> list_all isdigit_char raw \<longrightarrow> Phone_init raw = Inl InvalidPhone) \<and>
   (ten_decimal_digits raw \<longrightarrow> Phone_init raw = Inr (Phone raw))"
  by (auto simp: Phone_init_def isdigit_def ten_decimal_digits_def isdigit_char_def list_all_iff)

theorem Phone_init_isdigit_witness:
  "ten_decimal_digits ''1234567890'' \<and> Phone_init ''1234567890'' = Inr (Phone ''1234567890'') \<and>
   length ''123456789'' \<noteq> 10 \<and> Phone_init ''123456789'' = Inl InvalidPhone \<and>
   \<not> list_all isdigit_char ''12345x7890'' \<and> Phone_init ''12345x7890'' = Inl InvalidPhone"
  using Phone_init_isdigit [of "''1234567890''"] Phone_init_isdigit [of "''123456789''"]
        Phone_init_isdigit [of "''12345x7890''"]
  by (simp add: ten_decimal_digits_def isdigit_char_def ascii_digit_def)

section \<open>Commands on the address book\<close>

lemma update_absent: "map_of al k = None \<Longrightarrow> AList.update k v al = al @ [(k, v)]"
  by (induction al) (auto split: if_splits)

text \<open>
  C8: with no record under the name, Change, ShowPhone and ShowBirthday (called with their
  number of arguments) return the text \<open>Contact not found.\<close> as a normal result, also
  through the decorators, where it is not turned into an \<open>Error: \<close> text, and the book is
  unchanged.
\<close>

theorem contact_not_found:
  "find_record book n = None \<Longrightarrow>
   execute ChangeContactCommand [n, old_phone, new_phone] book now
     = (Inr ''Contact not found.'', book) \<and>
   execute ShowPhoneCommand [n] book now = (Inr ''Contact not found.'', book) \<and>
   execute ShowBirthdayCommand [n] book now = (Inr ''Contact not found.'', book) \<and>
   decorated_cmd ChangeContactCommand [n, old_phone, new_phone] book now storage
     = (Inr ''Contact not found.'', book, Some book) \<and>
   decorated_cmd ShowPhoneCommand [n] book now storage
     = (Inr ''Contact not found.'', book, Some book) \<and>
   decorated_cmd ShowBirthdayCommand [n] book now storage
     = (Inr ''Contact not found.'', book, Some book) \<and>
   take 7 ''Contact not found.'' \<noteq> ''Error: ''"
  by (simp add: ChangeContact_execute_def ShowPhone_execute_def ShowBirthday_execute_def
        wrap_eval)

theorem contact_not_found_witness:
  "find_record [] ''ann'' = None \<and>
   execute ChangeContactCommand [''ann'', ''0000000001'', ''12''] [] example_now
     = (Inr ''Contact not found.'', []) \<and>
   decorated_cmd ShowBirthdayCommand [''ann''] [] example_now None
     = (Inr ''Contact not found.'', [], Some [])"
proof -
  have h: "find_record [] ''ann'' = None" by (simp add: find_record_def)
  show ?thesis
    using h contact_not_found [OF h, of "''0000000001''" "''12''" example_now None]
    by simp
qed

text \<open>
  C9: Add with a name that has no record and an invalid phone raises InvalidPhone, and the
  book then holds a new record under that name, with no phones and no birthday: the book is
  not left as it was.
\<close>

theorem add_invalid_phone_keeps_new_record:
  "find_record book n = None \<Longrightarrow> Phone_init phone = Inl InvalidPhone \<Longrightarrow>
   execute AddContactCommand [n, phone] book now
     = (Inl InvalidPhone, book @ [(n, \<lparr>name = n, phones = [], birthday = None\<rparr>)]) \<and>
   find_record (snd (execute AddContactCommand [n, phone] book now)) n
     = Some \<lparr>name = n, phones = [], birthday = None\<rparr> \<and>
   snd (execute AddContactCommand [n, phone] book now) \<noteq> book"
  by (simp add: exec_eval update_absent map_add_def)

theorem add_invalid_phone_keeps_new_record_witness:
  "find_record [] ''ann'' = None \<and> Phone_init ''12'' = Inl InvalidPhone \<and>
   execute AddContactCommand [''ann'', ''12''] [] example_now
     = (Inl InvalidPhone, [(''ann'', \<lparr>name = ''ann'', phones = [], birthday = None\<rparr>)])"
proof -
  have h1: "find_record [] ''ann'' = None" by (simp add: find_record_def)
  have h2: "Phone_init ''12'' = Inl InvalidPhone" by (simp add: phone_eval)
  show ?thesis
    using h1 h2 add_invalid_phone_keeps_new_record [OF h1 h2, of example_now] by simp
qed

text \<open>
  C4, as stated, fails: ShowAll and Birthdays do not look at their arguments, and return
  their result when given one argument.
\<close>

theorem arity_counterexample:
  "length [''x''] \<noteq> arity ShowAllCommand \<and>
   execute ShowAllCommand [''x''] [] example_now = (Inr ''No contacts found.'', []) \<and>
   length [''x''] \<noteq> arity BirthdaysCommand \<and>
   execute BirthdaysCommand [''x''] [] example_now
     = (Inr ''No upcoming birthdays in the next 7 days.'', [])"
  by (simp add: arity_def ShowAll_execute_def Birthdays_execute_def get_upcoming_birthdays_def
        get_all_records_def)

text \<open>
  C4, amended: Add, Change, ShowPhone, AddBirthday and ShowBirthday, given an argument list
  whose length differs from the command's number of arguments, raise their WrongArity error
  with the book unchanged, whatever the book holds; ShowAll and Birthdays accept any
  argument list and do what they do without arguments.
\<close>

theorem arity_checked_first:
  "(length args \<noteq> arity AddContactCommand \<longrightarrow>
      execute AddContactCommand args book now
        = (Inl (WrongArity ''add'' ''2 arguments: name and phone''), book)) \<and>
   (length args \<noteq> arity ChangeContactCommand \<longrightarrow>
      execute ChangeContactCommand args book now
        = (Inl (WrongArity ''change'' ''3 arguments: name, old_phone, new_phone''), book)) \<and>
   (length args \<noteq> arity ShowPhoneCommand \<longrightarrow>
      execute ShowPhoneCommand args book now
        = (Inl (WrongArity ''phone'' ''1 argument: name''), book)) \<and>
   (length args \<noteq> arity AddBirthdayCommand \<longrightarrow>
      execute AddBirthdayCommand args book now
        = (Inl (WrongArity ''add-birthday'' ''2 arguments: name and birthday''), book)) \<and>
   (length args \<noteq> arity ShowBirthdayCommand \<longrightarrow>
      execute ShowBirthdayCommand args book now
        = (Inl (WrongArity ''show-birthday'' ''1 argument: name''), book)) \<and>
   execute ShowAllCommand args book now = execute ShowAllCommand [] book now \<and>
   execute BirthdaysCommand args book now = execute BirthdaysCommand [] book now"
  by (simp add: arity_def AddContact_execute_def ChangeContact_execute_def
        ShowPhone_execute_def AddBirthday_execute_def ShowBirthday_execute_def
        ShowAll_execute_def Birthdays_execute_def)

theorem arity_checked_first_witness:
  "length [''ann''] \<noteq> arity AddContactCommand \<and>
   execute AddContactCommand [''ann''] [] example_now
     = (Inl (WrongArity ''add'' ''2 arguments: name and phone''), []) \<and>
   length [''ann''] \<noteq> arity ChangeContactCommand \<and>
   execute ChangeContactCommand [''ann''] [] example_now
     = (Inl (WrongArity ''change'' ''3 arguments: name, old_phone, new_phone''), []) \<and>
   length [] \<noteq> arity ShowPhoneCommand \<and>
   execute ShowPhoneCommand [] [] example_now
     = (Inl (WrongArity ''phone'' ''1 argument: name''), []) \<and>
   length [''ann''] \<noteq> arity AddBirthdayCommand \<and>
   execute AddBirthdayCommand [''ann''] [] example_now
     = (Inl (WrongArity ''add-birthday'' ''2 arguments: name and birthday''), []) \<and>
   length [''ann'', ''x''] \<noteq> arity ShowBirthdayCommand \<and>
   execute ShowBirthdayCommand [''ann'', ''x''] [] example_now
     = (Inl (WrongArity ''show-birthday'' ''1 argument: name''), [])"
  using arity_checked_first [of "[''ann'']" "[]" example_now]
    arity_checked_first [of "[]" "[]" example_now]
    arity_checked_first [of "[''ann'', ''x'']" "[]" example_now]
  by (simp add: arity_def)

text \<open>
  C7: for a command of the table, when \<open>execute\<close> raises one of the four errors (each a
  ValueError) the decorated call returns \<open>Error: \<close> followed by the error's message, and
  when \<open>execute\<close> returns a string the decorated call returns that string.
\<close>

theorem input_error_wraps:
  "command_map token = Some cmd \<Longrightarrow> execute cmd args book now = (res, book') \<Longrightarrow>
   (res = Inl e \<and>
      (e = WrongArity c r \<or> e = InvalidPhone \<or> e = InvalidDate \<or> e = PhoneNotFound old_phone) \<longrightarrow>
      decorated_cmd cmd args book now storage
        = (Inr (''Error: '' @ str_exn e), book', Some book')) \<and>
   (res = Inl (ValueError m) \<longrightarrow>
      decorated_cmd cmd args book now storage = (Inr (''Error: '' @ m), book', Some book')) \<and>
   (res = Inr s \<longrightarrow> decorated_cmd cmd args book now storage = (Inr s, book', Some book'))"
  by (auto simp: wrap_eval WrongArity_def InvalidPhone_def InvalidDate_def PhoneNotFound_def)

theorem input_error_wraps_witness:
  "command_map ''add'' = Some AddContactCommand \<and>
   execute AddContactCommand [''ann''] [] example_now
     = (Inl (WrongArity ''add'' ''2 arguments: name and phone''), []) \<and>
   decorated_cmd AddContactCommand [''ann''] [] example_now None
     = (Inr (''Error: '' @ str_exn (WrongArity ''add'' ''2 arguments: name and phone'')), [], Some []) \<and>
   command_map ''phone'' = Some ShowPhoneCommand \<and>
   execute ShowPhoneCommand [''ann''] [] example_now = (Inr ''Contact not found.'', []) \<and>
   decorated_cmd ShowPhoneCommand [''ann''] [] example_now None
     = (Inr ''Contact not found.'', [], Some [])"
proof -
  have a: "command_map ''add'' = Some AddContactCommand" by (simp add: command_map_def)
  have b: "execute AddContactCommand [''ann''] [] example_now
     = (Inl (WrongArity ''add'' ''2 arguments: name and phone''), [])"
    by (simp add: AddContact_execute_def)
  have c: "command_map ''phone'' = Some ShowPhoneCommand" by (simp add: command_map_def)
  have d: "execute ShowPhoneCommand [''ann''] [] example_now = (Inr ''Contact not found.'', [])"
    by (simp add: ShowPhone_execute_def find_record_def)
  show ?thesis
    using a b c d
      input_error_wraps [OF a b, of "WrongArity ''add'' ''2 arguments: name and phone''"
        "''add''" "''2 arguments: name and phone''" "[]" None "[]" "[]"]
      input_error_wraps [OF c d, of InvalidPhone "[]" "[]" "[]" None "[]" "''Contact not found.''"]
    by simp
qed

end
